theory Spec2Isabelle
  imports Main "HOL-Library.Word"
begin

section \<open>The storage engine (storage.go)\<close>

subsection \<open>Data model\<close>

text \<open>
  Chunk contents are byte slices. The Go \<open>int\<close> and \<open>int64\<close> values that the storage
  layer handles (ids, counters, lengths) are modelled as \<open>int\<close>, and so are the
  INTEGER columns that are only written and read. The two places where 64-bit
  arithmetic is done have it written out: the quota test of the source, which wraps
  around (see \<open>wrap64\<close>), and the UPDATE of the columns Allocated and Revision, where
  the database leaves the integers on overflow (see \<open>sqlAdd\<close>).
\<close>

type_synonym byte = "8 word"

text \<open>
  A value of an INTEGER column on which the database computes (the columns Allocated
  and Revision of UserInfo). SQLite adds two integers in 64 bits; when the sum leaves
  \<open>[-2^63, 2^63)\<close> it adds them as IEEE doubles instead and the result is a REAL. The
  column's INTEGER affinity turns a REAL back into an integer when it is stored, if it
  is integral and strictly between \<open>-2^63\<close> and \<open>2^63 - 1\<close>. A sum of integers
  computed in doubles is integral, so \<open>Real v\<close> carries the value of the double as an
  integer. (Doubles are taken as unbounded in magnitude: infinity is out of reach of
  64-bit operands.)
\<close>

datatype sqlnum = Integer int | Real int

text \<open>The number of bits of a positive integer, and the double nearest to an integer
  (53 significant bits, ties to the even significand).\<close>

function bitlen :: "int \<Rightarrow> nat" where
  "bitlen x = (if x \<le> 0 then 0 else Suc (bitlen (x div 2)))"
  by pat_completeness auto
termination
  by (relation "measure nat") auto

declare bitlen.simps [simp del]

definition roundDouble :: "int \<Rightarrow> int" where
  "roundDouble x =
     (if \<bar>x\<bar> < 2 ^ 53 then x
      else
        (let k = bitlen \<bar>x\<bar> - 53;
             q = \<bar>x\<bar> div 2 ^ k;
             r = \<bar>x\<bar> mod 2 ^ k;
             q' = (if 2 * r > 2 ^ k \<or> (2 * r = 2 ^ k \<and> odd q) then q + 1 else q)
         in sgn x * q' * 2 ^ k))"

text \<open>Storing a REAL in a column of INTEGER affinity, and the SQL expression
  \<open>column + (?)\<close> with a 64-bit integer parameter, as stored back into the column.\<close>

definition storeNumeric :: "int \<Rightarrow> sqlnum" where
  "storeNumeric v = (if - (2 ^ 63) < v \<and> v < 2 ^ 63 - 1 then Integer v else Real v)"

fun sqlAdd :: "sqlnum \<Rightarrow> int \<Rightarrow> sqlnum" where
  "sqlAdd (Integer a) d =
     (if - (2 ^ 63) \<le> a + d \<and> a + d < 2 ^ 63 then Integer (a + d)
      else storeNumeric (roundDouble (roundDouble a + roundDouble d)))"
| "sqlAdd (Real r) d = storeNumeric (roundDouble (r + roundDouble d))"

text \<open>\<open>Scan\<close> of a column value into a Go integer: an integer is read as it is; a
  stored REAL (which lies outside the 64-bit integers or at their ends) is rejected.\<close>

fun scanInt :: "sqlnum \<Rightarrow> int option" where
  "scanInt (Integer i) = Some i"
| "scanInt (Real v) = None"

text \<open>The structs \<open>FileInfo\<close> and \<open>FileChunk\<close>; they are also the rows of the tables
  of the same names.\<close>

record FileInfo =
  UserID :: int
  FileID :: int
  FileName :: string
  LastMod :: int
  ChunkCount :: int
  FileHash :: string

record FileChunk =
  FileID :: int
  ChunkNumber :: int
  ChunkHash :: string
  Chunk :: "byte list"

text \<open>
  The database: one list of rows per table, in insertion order.
  \<^item> \<open>Perms\<close>: rows (UserID, Quota);
  \<^item> \<open>UserInfo\<close>: rows (UserID, Allocated, Revision), the last two as the database
    holds them after its own arithmetic;
  \<^item> \<open>FileInfoT\<close>: the table FileInfo;
  \<^item> \<open>FileChunks\<close>: the table FileChunks, whose declared primary key is the column
    FileID alone.
  The table Users is not read or written by any operation modelled here.
\<close>

record database =
  Perms :: "(int \<times> int) list"
  UserInfo :: "(int \<times> sqlnum \<times> sqlnum) list"
  FileInfoT :: "FileInfo list"
  FileChunks :: "FileChunk list"

record Storage =
  ChunkSize :: int
  db :: database

text \<open>
  The failures of the storage verbs, by kind. The source returns formatted messages;
  each message is mapped to one kind:
  \<^item> \<open>NotFound\<close>: a \<open>QueryRow(...).Scan\<close> that finds no row (owner lookup, file info,
    quota, user info, chunk);
  \<^item> \<open>ScanFailed\<close>: a \<open>QueryRow(...).Scan\<close> that finds a row with a value that does
    not convert to the Go integer it is scanned into;
  \<^item> \<open>NotOwner\<close>: "user does not own the file id supplied";
  \<^item> \<open>QuotaExceeded\<close>: "not enough free allocation space";
  \<^item> \<open>ChunkTooLarge\<close>: "chunk supplied is ... bytes long and the server is using a max
    size of ...";
  \<^item> \<open>NoRowsAffected\<close>: a statement whose affected-row count fails its check.
  Faults of the database connection itself (Begin, Commit, Exec returning an error)
  are outside the model.
\<close>

datatype error =
  NotFound | ScanFailed | NotOwner | QuotaExceeded | ChunkTooLarge | NoRowsAffected

subsection \<open>The SQL statements\<close>

text \<open>\<open>QueryRow(...).Scan\<close>: the first row of the result, or no row.\<close>

fun queryRow :: "'a list \<Rightarrow> 'a option" where
  "queryRow [] = None"
| "queryRow (r # rs) = Some r"

text \<open>\<open>SELECT UserID FROM FileInfo WHERE FileID = ?\<close>\<close>

definition getFileInfoOwner :: "database \<Rightarrow> int \<Rightarrow> int list" where
  "getFileInfoOwner tx fileID =
     map UserID (filter (\<lambda>r. FileInfo.FileID r = fileID) (FileInfoT tx))"

text \<open>\<open>SELECT UserID, FileName, LastMod, ChunkCount, FileHash FROM FileInfo WHERE FileID = ?\<close>\<close>

definition getFileInfo :: "database \<Rightarrow> int \<Rightarrow> FileInfo list" where
  "getFileInfo tx fileID = filter (\<lambda>r. FileInfo.FileID r = fileID) (FileInfoT tx)"

text \<open>\<open>SELECT Quota FROM Perms WHERE UserID = ?\<close>\<close>

definition getUserQuota :: "database \<Rightarrow> int \<Rightarrow> int list" where
  "getUserQuota tx userID = map snd (filter (\<lambda>r. fst r = userID) (Perms tx))"

text \<open>\<open>SELECT Allocated, Revision FROM UserInfo WHERE UserID = ?\<close>\<close>

definition getUserInfo :: "database \<Rightarrow> int \<Rightarrow> (sqlnum \<times> sqlnum) list" where
  "getUserInfo tx userID = map snd (filter (\<lambda>r. fst r = userID) (UserInfo tx))"

text \<open>\<open>Scan(&allocated, &revision)\<close> of such a row into two \<open>int64\<close> variables.\<close>

definition scanUserInfo :: "sqlnum \<times> sqlnum \<Rightarrow> (int \<times> int) option" where
  "scanUserInfo row =
     (case scanInt (fst row) of
        None \<Rightarrow> None
      | Some allocated \<Rightarrow>
          (case scanInt (snd row) of
             None \<Rightarrow> None
           | Some revision \<Rightarrow> Some (allocated, revision)))"

text \<open>\<open>UPDATE UserInfo SET Allocated = Allocated + (?), Revision = Revision + 1
  WHERE UserID = ?\<close>, with the number of rows it changed. Both sums are computed by
  the database.\<close>

definition updateUserInfo :: "database \<Rightarrow> int \<Rightarrow> int \<Rightarrow> int \<times> database" where
  "updateUserInfo tx allocDelta userID =
     (int (length (filter (\<lambda>r. fst r = userID) (UserInfo tx))),
      tx\<lparr>UserInfo :=
            map (\<lambda>(u, allocated, revision).
                   if u = userID then (u, sqlAdd allocated allocDelta, sqlAdd revision 1)
                   else (u, allocated, revision))
                (UserInfo tx)\<rparr>)"

text \<open>\<open>SELECT ChunkNum, ChunkHash FROM FileChunks WHERE FileID = ?\<close>\<close>

definition getAllFileChunksByID :: "database \<Rightarrow> int \<Rightarrow> (int \<times> string) list" where
  "getAllFileChunksByID tx fileID =
     map (\<lambda>r. (ChunkNumber r, ChunkHash r)) (filter (\<lambda>r. FileID r = fileID) (FileChunks tx))"

text \<open>
  \<open>INSERT OR REPLACE INTO FileChunks (FileID, ChunkNum, ChunkHash, Chunk) VALUES (?, ?, ?, ?)\<close>.
  The primary key of the table is FileID, so the rows in conflict with the new one,
  which REPLACE deletes before inserting, are the rows with the same FileID, whatever
  their ChunkNum. The statement reports one changed row.
\<close>

definition addFileChunk ::
  "database \<Rightarrow> int \<Rightarrow> int \<Rightarrow> string \<Rightarrow> byte list \<Rightarrow> int \<times> database" where
  "addFileChunk tx fileID chunkNumber chunkHash chunk =
     (1, tx\<lparr>FileChunks :=
              filter (\<lambda>r. FileID r \<noteq> fileID) (FileChunks tx) @
              [\<lparr>FileID = fileID, ChunkNumber = chunkNumber,
                ChunkHash = chunkHash, Chunk = chunk\<rparr>]\<rparr>)"

text \<open>\<open>DELETE FROM FileChunks WHERE FileID = ? AND ChunkNum = ?\<close>, with the number of
  rows it deleted.\<close>

definition removeFileChunk :: "database \<Rightarrow> int \<Rightarrow> int \<Rightarrow> int \<times> database" where
  "removeFileChunk tx fileID chunkNumber =
     (int (length (filter (\<lambda>r. FileID r = fileID \<and> ChunkNumber r = chunkNumber)
                          (FileChunks tx))),
      tx\<lparr>FileChunks :=
            filter (\<lambda>r. \<not> (FileID r = fileID \<and> ChunkNumber r = chunkNumber))
                   (FileChunks tx)\<rparr>)"

text \<open>\<open>SELECT ChunkHash, Chunk FROM FileChunks WHERE FileID = ? AND ChunkNum = ?\<close>\<close>

definition getFileChunk :: "database \<Rightarrow> int \<Rightarrow> int \<Rightarrow> (string \<times> byte list) list" where
  "getFileChunk tx fileID chunkNumber =
     map (\<lambda>r. (ChunkHash r, Chunk r))
         (filter (\<lambda>r. FileID r = fileID \<and> ChunkNumber r = chunkNumber) (FileChunks tx))"

subsection \<open>Transactions\<close>

text \<open>
  \<open>transact\<close> runs a function inside a transaction: when the function returns an error
  the transaction is rolled back and the database is as before; otherwise it is
  committed and the database is the one the function left. The value that the source's
  closures store in captured variables is returned beside the database.
\<close>

definition transact ::
  "(database \<Rightarrow> error + ('a \<times> database)) \<Rightarrow> Storage \<Rightarrow> (error + 'a) \<times> Storage" where
  "transact transFoo s =
     (case transFoo (db s) of
        Inl err \<Rightarrow> (Inl err, s)
      | Inr (v, tx') \<Rightarrow> (Inr v, s\<lparr>db := tx'\<rparr>))"

subsection \<open>The storage verbs\<close>

text \<open>The value of a 64-bit signed computation: the mathematical result wrapped
  into \<open>[-2^63, 2^63)\<close>.\<close>

definition wrap64 :: "int \<Rightarrow> int" where
  "wrap64 x = (x + 2 ^ 63) mod 2 ^ 64 - 2 ^ 63"

definition GetFileInfo :: "Storage \<Rightarrow> int \<Rightarrow> int \<Rightarrow> (error + FileInfo) \<times> Storage" where
  "GetFileInfo s userID fileID =
     transact (\<lambda>tx.
       case queryRow (getFileInfoOwner tx fileID) of
         None \<Rightarrow> Inl NotFound
       | Some owningUserID \<Rightarrow>
           if owningUserID \<noteq> userID then Inl NotOwner
           else (case queryRow (getFileInfo tx fileID) of
                   None \<Rightarrow> Inl NotFound
                 | Some fi \<Rightarrow> Inr (fi\<lparr>FileInfo.FileID := fileID\<rparr>, tx))) s"

text \<open>
  \<open>sort.Search(n, f)\<close> of the Go standard library: a binary search for the smallest index
  in \<open>[0, n)\<close> at which \<open>f\<close> holds, \<open>n\<close> when there is none. \<open>sort.SearchInts(a, x)\<close> is
  \<open>sort.Search(len(a), a[i] >= x)\<close>: the position at which \<open>x\<close> would be inserted in the
  sorted slice, not a membership test.
\<close>

function Search_loop :: "(nat \<Rightarrow> bool) \<Rightarrow> nat \<Rightarrow> nat \<Rightarrow> nat" where
  "Search_loop f i j =
     (if i < j then
        (let h = (i + j) div 2 in
         if \<not> f h then Search_loop f (h + 1) j else Search_loop f i h)
      else i)"
  by pat_completeness auto
termination
  by (relation "measure (\<lambda>(f, i, j). j - i)") auto

declare Search_loop.simps [simp del]

definition SearchInts :: "int list \<Rightarrow> int \<Rightarrow> nat" where
  "SearchInts a x = Search_loop (\<lambda>i. a ! i \<ge> x) 0 (length a)"

definition GetMissingChunkNumbersForFile ::
  "Storage \<Rightarrow> int \<Rightarrow> int \<Rightarrow> (error + int list) \<times> Storage" where
  "GetMissingChunkNumbersForFile s userID fileID =
     (case transact (\<lambda>tx.
             case queryRow (getFileInfoOwner tx fileID) of
               None \<Rightarrow> Inl NotFound
             | Some owningUserID \<Rightarrow>
                 if owningUserID \<noteq> userID then Inl NotOwner
                 else (case queryRow (getFileInfo tx fileID) of
                         None \<Rightarrow> Inl NotFound
                       | Some fi \<Rightarrow>
                           Inr ((fi\<lparr>FileInfo.FileID := fileID\<rparr>,
                                 map fst (getAllFileChunksByID tx fileID)), tx))) s of
        (Inl err, s') \<Rightarrow> (Inl err, s')
      | (Inr (fi, knownChunks0), s') \<Rightarrow>
          (let knownChunks = sort knownChunks0;
               maxKnown = length knownChunks;
               mia = filter (\<lambda>i. SearchInts knownChunks i \<ge> maxKnown)
                            [0 .. ChunkCount fi - 1]
           in (Inr mia, s')))"

definition AddFileChunk ::
  "Storage \<Rightarrow> int \<Rightarrow> int \<Rightarrow> int \<Rightarrow> string \<Rightarrow> byte list \<Rightarrow> (error + unit) \<times> Storage" where
  "AddFileChunk s userID fileID chunkNumber chunkHash chunk =
     (let chunkLength = int (length chunk) in
      if chunkLength > ChunkSize s then (Inl ChunkTooLarge, s)
      else
        transact (\<lambda>tx.
          case queryRow (getFileInfoOwner tx fileID) of
            None \<Rightarrow> Inl NotFound
          | Some owningUserID \<Rightarrow>
              if owningUserID \<noteq> userID then Inl NotOwner
              else (case queryRow (getUserQuota tx userID) of
                 None \<Rightarrow> Inl NotFound
               | Some quota \<Rightarrow>
                  (case queryRow (getUserInfo tx userID) of
                     None \<Rightarrow> Inl NotFound
                   | Some row \<Rightarrow>
                      (case scanUserInfo row of
                         None \<Rightarrow> Inl ScanFailed
                       | Some (allocated, revision) \<Rightarrow>
                           if wrap64 (quota - allocated) < chunkLength then Inl QuotaExceeded
                           else
                             (case addFileChunk tx fileID chunkNumber chunkHash chunk of
                                (affected, tx1) \<Rightarrow>
                                  if affected \<noteq> 1 then Inl NoRowsAffected
                                  else
                                    (case updateUserInfo tx1 chunkLength userID of
                                       (affected', tx2) \<Rightarrow>
                                         if affected' \<noteq> 1 then Inl NoRowsAffected
                                         else Inr ((), tx2))))))) s)"

definition RemoveFileChunk ::
  "Storage \<Rightarrow> int \<Rightarrow> int \<Rightarrow> int \<Rightarrow> (error + bool) \<times> Storage" where
  "RemoveFileChunk s userID fileID chunkNumber =
     transact (\<lambda>tx.
       case queryRow (getFileInfoOwner tx fileID) of
         None \<Rightarrow> Inl NotFound
       | Some owningUserID \<Rightarrow>
           if owningUserID \<noteq> userID then Inl NotOwner
           else (case queryRow (getFileChunk tx fileID chunkNumber) of
              None \<Rightarrow> Inl NotFound
            | Some (chunkHash, chunk) \<Rightarrow>
                (let allocationCount = int (length chunk) in
                 case removeFileChunk tx fileID chunkNumber of
                   (affected, tx1) \<Rightarrow>
                     if affected \<le> 0 then Inl NoRowsAffected
                     else
                       (case updateUserInfo tx1 (- allocationCount) userID of
                          (affected', tx2) \<Rightarrow>
                            if affected' \<noteq> 1 then Inl NoRowsAffected
                            else Inr (True, tx2))))) s"

text \<open>\<open>GetFileChunk\<close> takes no user id and runs outside any transaction; it reads only.\<close>

definition GetFileChunk :: "Storage \<Rightarrow> int \<Rightarrow> int \<Rightarrow> error + FileChunk" where
  "GetFileChunk s fileID chunkNumber =
     (case queryRow (getFileChunk (db s) fileID chunkNumber) of
        None \<Rightarrow> Inl NotFound
      | Some (chunkHash, chunk) \<Rightarrow>
          Inr \<lparr>FileID = fileID, ChunkNumber = chunkNumber,
               ChunkHash = chunkHash, Chunk = chunk\<rparr>)"

subsection \<open>Sequences of chunk operations\<close>

text \<open>A chunk operation with its arguments, and the storage left by a list of them run
  one after the other; an operation that fails leaves the storage as it was.\<close>

datatype chunk_op =
    Add int int int string "byte list"
  | Remove int int int

fun apply_op :: "Storage \<Rightarrow> chunk_op \<Rightarrow> Storage" where
  "apply_op s (Add userID fileID chunkNumber chunkHash chunk) =
     snd (AddFileChunk s userID fileID chunkNumber chunkHash chunk)"
| "apply_op s (Remove userID fileID chunkNumber) =
     snd (RemoveFileChunk s userID fileID chunkNumber)"

definition run_ops :: "Storage \<Rightarrow> chunk_op list \<Rightarrow> Storage" where
  "run_ops s ops = foldl apply_op s ops"


definition allocated_of :: "Storage \<Rightarrow> int \<Rightarrow> int option" where
  "allocated_of s userID =
     (case queryRow (getUserInfo (db s) userID) of
        None \<Rightarrow> None
      | Some row \<Rightarrow> scanInt (fst row))"







subsection \<open>Example states\<close>

text \<open>A store with chunk size 4 and one user, number 1, with quota 10 and nothing
  allocated, who owns file 1 of two chunks; and the same store later on, with 8 bytes
  allocated at revision 3 and the three bytes of chunk 1 of file 1 stored.\<close>

definition example_storage :: Storage where
  "example_storage =
     \<lparr>ChunkSize = 4,
      db = \<lparr>Perms = [(1, 10)], UserInfo = [(1, Integer 0, Integer 0)],
            FileInfoT = [\<lparr>UserID = 1, FileID = 1, FileName = ''f'', LastMod = 0,
                          ChunkCount = 2, FileHash = ''h''\<rparr>],
            FileChunks = []\<rparr>\<rparr>"

definition example_nearly_full :: Storage where
  "example_nearly_full =
     \<lparr>ChunkSize = 4,
      db = \<lparr>Perms = [(1, 10)], UserInfo = [(1, Integer 8, Integer 3)],
            FileInfoT = [\<lparr>UserID = 1, FileID = 1, FileName = ''f'', LastMod = 0,
                          ChunkCount = 2, FileHash = ''h''\<rparr>],
            FileChunks = [\<lparr>FileID = 1, ChunkNumber = 1, ChunkHash = ''c'',
                           Chunk = [7, 7, 7]\<rparr>]\<rparr>\<rparr>"

section \<open>The sync client (runSyncFile and its helpers)\<close>

subsection \<open>The world of the client\<close>

text \<open>
  The requests that the client sends, by endpoint:
  \<^item> \<open>GetFileByName name\<close>: GET /api/file/name;
  \<^item> \<open>PostFile name lastMod chunkCount fileHash\<close>: POST /api/files;
  \<^item> \<open>DeleteFile fileID\<close>: DELETE /api/file/{fileid};
  \<^item> \<open>GetChunkList fileID\<close>: GET /api/chunk/{fileid};
  \<^item> \<open>GetChunk fileID chunkNumber\<close>: GET /api/chunk/{fileid}/{num};
  \<^item> \<open>PutChunk fileID chunkNumber chunkHash body\<close>: PUT /api/chunk/{fileid}/{num}/{hash}.
\<close>

datatype request =
    GetFileByName string
  | PostFile string int int string
  | DeleteFile int
  | GetChunkList int
  | GetChunk int int
  | PutChunk int int string "byte list"

text \<open>
  What comes back from \<open>runAuthRequest\<close> followed by \<open>json.Unmarshal\<close>: the request
  failed, or its body does not decode, or the decoded value.
\<close>

datatype 'a reply = RequestFailed | Malformed | Reply 'a

text \<open>\<open>models.FileGetResponse\<close>: a \<open>FileInfo\<close> with the list of missing chunks.\<close>

record FileGetResponse = FileInfo +
  MissingChunks :: "int list"

text \<open>
  Everything outside the client that a run of \<open>runSyncFile\<close> depends on: the two
  flags, the local file (its content, \<open>None\<close> when it does not exist, whether it can
  be opened for writing and which chunk writes succeed), the result of
  \<open>filefreezer.CalcFileHashInfo\<close> on it (chunk count, modification time and hash,
  \<open>None\<close> for an error), the chunk digest (SHA-1 in URL-safe base 64) and the reply of the
  server to each request. Within one run no request is sent twice, so a reply is a
  function of the request.
\<close>

record world =
  flagChunkSize :: int
  flagExtraStrict :: bool
  localFile :: "byte list option"
  CalcFileHashInfo :: "(int \<times> int \<times> string) option"
  openForWrite :: bool
  writeChunk :: "int \<Rightarrow> bool"
  chunkHashOf :: "byte list \<Rightarrow> string"
  getFileByName :: "string \<Rightarrow> FileGetResponse reply"
  postFile :: "string \<Rightarrow> int \<Rightarrow> int \<Rightarrow> string \<Rightarrow> int reply"
  deleteFile :: "int \<Rightarrow> unit reply"
  getChunkList :: "int \<Rightarrow> FileChunk list reply"
  getChunk :: "int \<Rightarrow> int \<Rightarrow> FileChunk reply"
  putChunk :: "int \<Rightarrow> int \<Rightarrow> string \<Rightarrow> byte list \<Rightarrow> bool reply"

text \<open>What a run does to the outside: the requests sent, in order, and the chunks
  written to the local file, in order.\<close>

record effects =
  sent :: "request list"
  written :: "byte list list"

text \<open>
  The errors of the client, by the message of the source:
  \<^item> \<open>HashInfoFailed\<close>: "Failed to calculate the file hash data";
  \<^item> \<open>UploadFailed\<close>: "Failed to upload the file to the server";
  \<^item> \<open>BadFileInfo\<close>: "Failed to get the file information for the file name given";
  \<^item> \<open>BadChunkList\<close>: "Failed to get the file chunk list";
  \<^item> \<open>CompareFailed\<close>: "Failed to check the local file ... against the remote hashes";
  \<^item> \<open>UnreconciledDifference\<close>: "found differences between local ... and remote ...
    versions, but this was not reconcilled";
  \<^item> \<open>ChunkUploadFailed\<close>: "Failed to upload the local file chunk";
  \<^item> \<open>ChunkRejected\<close>: "Failed to upload the chunk to the server";
  \<^item> \<open>RemoveFailed\<close>: "Failed to remove the file";
  \<^item> \<open>OpenFailed\<close>: "Failed to open local file ... for writing";
  \<^item> \<open>ChunkDownloadFailed\<close>: "Failed to get the file chunk";
  \<^item> \<open>WriteFailed\<close>: "Failed to write to the ... chunk to the local file";
  \<^item> \<open>RequestError\<close>, \<open>DecodeError\<close>: an error of \<open>runAuthRequest\<close> or of
    \<open>json.Unmarshal\<close> that is returned as it is;
  \<^item> \<open>ReadFailed\<close>: the local file cannot be read by \<open>forEachChunk\<close>.
\<close>

datatype sync_error =
    HashInfoFailed | UploadFailed | BadFileInfo | BadChunkList | CompareFailed
  | UnreconciledDifference | ChunkUploadFailed | ChunkRejected | RemoveFailed
  | OpenFailed | ChunkDownloadFailed | WriteFailed | RequestError | DecodeError
  | ReadFailed

definition syncStatusMissing :: int where "syncStatusMissing = 1"
definition syncStatusLocalNewer :: int where "syncStatusLocalNewer = 2"
definition syncStatusRemoteNewer :: int where "syncStatusRemoteNewer = 3"
definition syncStatusSame :: int where "syncStatusSame = 4"

subsection \<open>Iterating over the chunks of the local file\<close>

text \<open>
  Modelled from the spec: \<open>forEachChunk\<close> is called by the client but its body is not
  part of the sources at hand. The spec says that the callers "iterate chunk indices
  \<open>0 \<le> i < chunkCount\<close>" and that for each chunk they "read \<open>chunkSize\<close> bytes from
  offset \<open>i * chunkSize\<close>". The callbacks of the source return a flag and an error:
  an error ends the iteration and is returned, a false flag ends it without error.
\<close>

definition chunkAt :: "int \<Rightarrow> byte list \<Rightarrow> nat \<Rightarrow> byte list" where
  "chunkAt chunkSize content i = take (nat chunkSize) (drop (i * nat chunkSize) content)"

fun forEachChunk_from ::
  "int \<Rightarrow> byte list \<Rightarrow> (int \<Rightarrow> byte list \<Rightarrow> 'st \<Rightarrow> (bool \<times> sync_error option) \<times> 'st) \<Rightarrow>
   nat list \<Rightarrow> 'st \<Rightarrow> sync_error option \<times> 'st" where
  "forEachChunk_from chunkSize content f [] st = (None, st)"
| "forEachChunk_from chunkSize content f (i # rest) st =
     (case f (int i) (chunkAt chunkSize content i) st of
        ((continue, Some err), st') \<Rightarrow> (Some err, st')
      | ((False, None), st') \<Rightarrow> (None, st')
      | ((True, None), st') \<Rightarrow> forEachChunk_from chunkSize content f rest st')"

definition forEachChunk ::
  "int \<Rightarrow> byte list option \<Rightarrow> int \<Rightarrow>
   (int \<Rightarrow> byte list \<Rightarrow> 'st \<Rightarrow> (bool \<times> sync_error option) \<times> 'st) \<Rightarrow>
   'st \<Rightarrow> sync_error option \<times> 'st" where
  "forEachChunk chunkSize file chunkCount f st =
     (case file of
        None \<Rightarrow> (Some ReadFailed, st)
      | Some content \<Rightarrow> forEachChunk_from chunkSize content f [0 ..< nat chunkCount] st)"

subsection \<open>Uploading\<close>

text \<open>
  The callback that \<open>syncUpload\<close> and \<open>syncUploadMissing\<close> both pass to
  \<open>forEachChunk\<close> (the two closures differ in their log line only): hash the chunk,
  PUT it, count it when the server answers with status true. The state is the upload
  count and the effects so far.
\<close>

definition uploadChunk ::
  "world \<Rightarrow> int \<Rightarrow> int \<Rightarrow> byte list \<Rightarrow> int \<times> effects \<Rightarrow>
   (bool \<times> sync_error option) \<times> (int \<times> effects)" where
  "uploadChunk w remoteID i b st =
     (case st of (uploadCount, fx) \<Rightarrow>
        (let chunkHash = chunkHashOf w b;
             fx' = fx\<lparr>sent := sent fx @ [PutChunk remoteID i chunkHash b]\<rparr>
         in case putChunk w remoteID i chunkHash b of
              RequestFailed \<Rightarrow> ((False, Some RequestError), (uploadCount, fx'))
            | Malformed \<Rightarrow> ((False, Some ChunkRejected), (uploadCount, fx'))
            | Reply status \<Rightarrow>
                if status = False then ((False, Some ChunkRejected), (uploadCount, fx'))
                else ((True, None), (uploadCount + 1, fx'))))"

definition syncUploadMissing ::
  "world \<Rightarrow> int \<Rightarrow> int \<Rightarrow> effects \<Rightarrow> (int \<times> sync_error option) \<times> effects" where
  "syncUploadMissing w remoteID localChunkCount fx =
     (case forEachChunk (flagChunkSize w) (localFile w) localChunkCount
             (uploadChunk w remoteID) (0, fx) of
        (Some err, (uploadCount, fx')) \<Rightarrow> ((uploadCount, Some ChunkUploadFailed), fx')
      | (None, (uploadCount, fx')) \<Rightarrow> ((uploadCount, None), fx'))"

definition syncUpload ::
  "world \<Rightarrow> string \<Rightarrow> int \<Rightarrow> int \<Rightarrow> string \<Rightarrow> effects \<Rightarrow>
   (int \<times> sync_error option) \<times> effects" where
  "syncUpload w remoteFilepath localLastMod localChunkCount localHash fx =
     (let fx1 = fx\<lparr>sent := sent fx @
                   [PostFile remoteFilepath localLastMod localChunkCount localHash]\<rparr>
      in case postFile w remoteFilepath localLastMod localChunkCount localHash of
           RequestFailed \<Rightarrow> ((0, Some RequestError), fx1)
         | Malformed \<Rightarrow> ((0, Some DecodeError), fx1)
         | Reply remoteID \<Rightarrow>
             (case forEachChunk (flagChunkSize w) (localFile w) localChunkCount
                     (uploadChunk w remoteID) (0, fx1) of
                (Some err, (uploadCount, fx')) \<Rightarrow> ((uploadCount, Some ChunkUploadFailed), fx')
              | (None, (uploadCount, fx')) \<Rightarrow> ((uploadCount, None), fx')))"

definition syncUploadNewer ::
  "world \<Rightarrow> int \<Rightarrow> string \<Rightarrow> int \<Rightarrow> int \<Rightarrow> string \<Rightarrow> effects \<Rightarrow>
   (int \<times> sync_error option) \<times> effects" where
  "syncUploadNewer w remoteFileID remoteFilepath localLastMod localChunkCount localHash fx =
     (let fx1 = fx\<lparr>sent := sent fx @ [DeleteFile remoteFileID]\<rparr>
      in case deleteFile w remoteFileID of
           RequestFailed \<Rightarrow> ((0, Some RemoveFailed), fx1)
         | _ \<Rightarrow> syncUpload w remoteFilepath localLastMod localChunkCount localHash fx1)"

subsection \<open>Downloading\<close>

text \<open>\<open>bytes.IndexByte\<close> of the Go standard library: the index of the first occurrence
  of the byte, or -1 when it does not occur.\<close>

fun IndexByte :: "byte list \<Rightarrow> byte \<Rightarrow> int" where
  "IndexByte [] c = - 1"
| "IndexByte (x # xs) c =
     (if x = c then 0 else (let k = IndexByte xs c in if k < 0 then - 1 else k + 1))"

text \<open>The trimming step of \<open>syncDownload\<close> ("trim the buffer at the EOF marker of
  byte(0)"), applied to each chunk received before it is written.\<close>

definition trimEOF :: "byte list \<Rightarrow> byte list" where
  "trimEOF chunk =
     (let eofIndex = IndexByte chunk 0 in
      if eofIndex > 0 \<and> eofIndex < int (length chunk) then take (nat eofIndex) chunk
      else chunk)"

text \<open>The loop of \<open>syncDownload\<close> over the chunk numbers, with the count of chunks
  written so far.\<close>

fun syncDownload_loop ::
  "world \<Rightarrow> int \<Rightarrow> nat list \<Rightarrow> int \<Rightarrow> effects \<Rightarrow> (int \<times> sync_error option) \<times> effects" where
  "syncDownload_loop w remoteID [] chunksWritten fx = ((chunksWritten, None), fx)"
| "syncDownload_loop w remoteID (i # rest) chunksWritten fx =
     (let fx1 = fx\<lparr>sent := sent fx @ [GetChunk remoteID (int i)]\<rparr>
      in case getChunk w remoteID (int i) of
           RequestFailed \<Rightarrow> ((chunksWritten, Some ChunkDownloadFailed), fx1)
         | Malformed \<Rightarrow> ((chunksWritten, Some ChunkDownloadFailed), fx1)
         | Reply chunkResp \<Rightarrow>
             (let chunk = trimEOF (Chunk chunkResp) in
              if \<not> writeChunk w (int i) then ((chunksWritten, Some WriteFailed), fx1)
              else syncDownload_loop w remoteID rest (chunksWritten + 1)
                     (fx1\<lparr>written := written fx1 @ [chunk]\<rparr>)))"

definition syncDownload ::
  "world \<Rightarrow> int \<Rightarrow> int \<Rightarrow> effects \<Rightarrow> (int \<times> sync_error option) \<times> effects" where
  "syncDownload w remoteID chunkCount fx =
     (if \<not> openForWrite w then ((0, Some OpenFailed), fx)
      else syncDownload_loop w remoteID [0 ..< nat chunkCount] 0 fx)"

subsection \<open>The decision procedure\<close>

text \<open>The callback of the extra-strict comparison: the state is the flag
  \<open>different\<close>.\<close>

definition compareChunk ::
  "world \<Rightarrow> FileChunk list \<Rightarrow> int \<Rightarrow> byte list \<Rightarrow> bool \<Rightarrow>
   (bool \<times> sync_error option) \<times> bool" where
  "compareChunk w remoteChunks i b different =
     (if chunkHashOf w b \<noteq> ChunkHash (remoteChunks ! nat i) then ((False, None), True)
      else ((True, None), different))"

text \<open>The last part of \<open>runSyncFile\<close>, reached when a difference was found: the newer
  side wins; with equal modification times the missing chunks are uploaded; otherwise
  the difference is reported.\<close>

definition resolveDifference ::
  "world \<Rightarrow> string \<Rightarrow> FileGetResponse \<Rightarrow> int \<Rightarrow> int \<Rightarrow> string \<Rightarrow> effects \<Rightarrow>
   (int \<times> int \<times> sync_error option) \<times> effects" where
  "resolveDifference w remoteFilepath remote localChunkCount localLastMod localHash fx =
     (if localLastMod > LastMod remote then
        (case syncUploadNewer w (FileInfo.FileID remote) remoteFilepath
                localLastMod localChunkCount localHash fx of
           ((ulCount, e), fx') \<Rightarrow> ((syncStatusLocalNewer, ulCount, e), fx'))
      else if localLastMod < LastMod remote then
        (case syncDownload w (FileInfo.FileID remote) (ChunkCount remote) fx of
           ((dlCount, e), fx') \<Rightarrow> ((syncStatusRemoteNewer, dlCount, e), fx'))
      else if length (MissingChunks remote) > 0 then
        (case syncUploadMissing w (FileInfo.FileID remote) localChunkCount fx of
           ((ulCount, e), fx') \<Rightarrow> ((syncStatusMissing, ulCount, e), fx'))
      else ((0, 0, Some UnreconciledDifference), fx))"

definition runSyncFile ::
  "world \<Rightarrow> string \<Rightarrow> (int \<times> int \<times> sync_error option) \<times> effects" where
  "runSyncFile w remoteFilepath =
     (let fx0 = \<lparr>sent = [GetFileByName remoteFilepath], written = []\<rparr>
      in case getFileByName w remoteFilepath of
           RequestFailed \<Rightarrow>
             (case CalcFileHashInfo w of
                None \<Rightarrow> ((syncStatusMissing, 0, Some HashInfoFailed), fx0)
              | Some (localChunkCount, localLastMod, localHash) \<Rightarrow>
                  (case syncUpload w remoteFilepath localLastMod localChunkCount localHash fx0 of
                     ((ulCount, Some err), fx') \<Rightarrow>
                        ((syncStatusMissing, ulCount, Some UploadFailed), fx')
                   | ((ulCount, None), fx') \<Rightarrow> ((syncStatusLocalNewer, ulCount, None), fx')))
         | Malformed \<Rightarrow> ((0, 0, Some BadFileInfo), fx0)
         | Reply remote \<Rightarrow>
             if localFile w = None then
               (case syncDownload w (FileInfo.FileID remote) (ChunkCount remote) fx0 of
                  ((dlCount, err), fx') \<Rightarrow> ((syncStatusRemoteNewer, dlCount, err), fx'))
             else
               (case CalcFileHashInfo w of
                  None \<Rightarrow> ((0, 0, Some HashInfoFailed), fx0)
                | Some (localChunkCount, localLastMod, localHash) \<Rightarrow>
                    if localHash = FileHash remote \<and> length (MissingChunks remote) = 0 \<and>
                       localChunkCount = ChunkCount remote
                    then
                      (if flagExtraStrict w then
                         (let fx1 = fx0\<lparr>sent := sent fx0 @
                                        [GetChunkList (FileInfo.FileID remote)]\<rparr>
                          in case getChunkList w (FileInfo.FileID remote) of
                               RequestFailed \<Rightarrow> ((0, 0, Some BadChunkList), fx1)
                             | Malformed \<Rightarrow> ((0, 0, Some BadChunkList), fx1)
                             | Reply remoteChunks \<Rightarrow>
                                 (let remoteChunkCount = int (length remoteChunks) in
                                  if localChunkCount = remoteChunkCount then
                                    (case forEachChunk (flagChunkSize w) (localFile w)
                                            localChunkCount (compareChunk w remoteChunks)
                                            False of
                                       (Some err, different) \<Rightarrow>
                                          ((0, 0, Some CompareFailed), fx1)
                                     | (None, different) \<Rightarrow>
                                          if \<not> different
                                          then ((syncStatusSame, 0, None), fx1)
                                          else resolveDifference w remoteFilepath remote
                                                 localChunkCount localLastMod localHash fx1)
                                  else ((syncStatusSame, 0, None), fx1)))
                       else ((syncStatusSame, 0, None), fx0))
                    else resolveDifference w remoteFilepath remote
                           localChunkCount localLastMod localHash fx0))"

subsection \<open>Example worlds\<close>

text \<open>
  A client with chunk size 2 in extra-strict mode and a local file of five bytes
  (three chunks), whose hash data agree with the remote file 7 in hash, chunk count and
  modification time. The server reports chunk 1 as missing, accepts every upload, has an
  empty chunk list and serves chunks that start with a zero byte. In the second world
  the server reports no missing chunk.
\<close>

definition example_world :: world where
  "example_world =
     \<lparr>flagChunkSize = 2, flagExtraStrict = True,
      localFile = Some [65, 66, 67, 68, 69],
      CalcFileHashInfo = Some (3, 100, ''H''),
      openForWrite = True, writeChunk = (\<lambda>i. True),
      chunkHashOf = (\<lambda>b. replicate (length b) CHR ''#''),
      getFileByName = (\<lambda>name.
         Reply \<lparr>UserID = 1, FileID = 7, FileName = name, LastMod = 100, ChunkCount = 3,
                FileHash = ''H'', MissingChunks = [1]\<rparr>),
      postFile = (\<lambda>name lastMod chunkCount fileHash. Reply 8),
      deleteFile = (\<lambda>fileID. Reply ()),
      getChunkList = (\<lambda>fileID. Reply []),
      getChunk = (\<lambda>fileID i.
         Reply \<lparr>FileID = fileID, ChunkNumber = i, ChunkHash = ''###'', Chunk = [0, 65, 66]\<rparr>),
      putChunk = (\<lambda>fileID i chunkHash body. Reply True)\<rparr>"

definition example_world_complete :: world where
  "example_world_complete =
     example_world\<lparr>getFileByName := (\<lambda>name.
         Reply \<lparr>UserID = 1, FileID = 7, FileName = name, LastMod = 100, ChunkCount = 3,
                FileHash = ''H'', MissingChunks = []\<rparr>)\<rparr>"

section \<open>Properties of the storage engine\<close>

subsection \<open>Auxiliary facts\<close>

lemma wrap64_id: "- (2 ^ 63) \<le> x \<Longrightarrow> x < 2 ^ 63 \<Longrightarrow> wrap64 x = x"
  by (simp add: wrap64_def)

lemma wrap64_less: "wrap64 x < 2 ^ 63"
proof -
  have "(x + 2 ^ 63) mod 2 ^ 64 < (2 ^ 64 :: int)" by simp
  then show ?thesis by (simp add: wrap64_def)
qed


lemma scanUserInfo_Some:
  "scanUserInfo row = Some (a, rv) \<longleftrightarrow> row = (Integer a, Integer rv)"
  by (cases row, cases "fst row"; cases "snd row") (auto simp: scanUserInfo_def)

lemma bump_rows_same:
  "map snd (filter (\<lambda>r. fst r = u)
      (map (\<lambda>(x, a, r). if x = u then (x, sqlAdd a d, sqlAdd r 1) else (x, a, r)) xs)) =
   map (\<lambda>(a, r). (sqlAdd a d, sqlAdd r 1)) (map snd (filter (\<lambda>r. fst r = u) xs))"
  by (induction xs) (auto split: if_splits)


lemma getUserInfo_updateUserInfo_same:
  "getUserInfo (snd (updateUserInfo tx d u)) u =
     map (\<lambda>(a, r). (sqlAdd a d, sqlAdd r 1)) (getUserInfo tx u)"
  by (simp add: getUserInfo_def updateUserInfo_def bump_rows_same)


lemma getFileChunk_Some_filter:
  "queryRow (getFileChunk tx f n) = Some (h, c) \<Longrightarrow>
   0 < length (filter (\<lambda>r. FileID r = f \<and> ChunkNumber r = n) (FileChunks tx))"
  by (cases "filter (\<lambda>r. FileID r = f \<and> ChunkNumber r = n) (FileChunks tx)")
     (simp_all add: getFileChunk_def)

lemma AddFileChunk_quota_guard:
  assumes "int (length chunk) \<le> ChunkSize s"
    and "queryRow (getFileInfoOwner (db s) fileID) = Some userID"
    and "queryRow (getUserQuota (db s) userID) = Some quota"
    and "queryRow (getUserInfo (db s) userID) = Some (Integer allocated, Integer revision)"
    and "wrap64 (quota - allocated) < int (length chunk)"
  shows "AddFileChunk s userID fileID chunkNumber chunkHash chunk = (Inl QuotaExceeded, s)"
  using assms by (simp add: AddFileChunk_def transact_def scanUserInfo_def)

lemma single_row:
  "length (filter P xs) = Suc 0 \<Longrightarrow> queryRow (map g (filter P xs)) = Some v \<Longrightarrow>
   map g (filter P xs) = [v]"
  by (cases "filter P xs") auto

lemma single_row_ex:
  "length (filter P xs) = Suc 0 \<Longrightarrow> \<exists>v. map g (filter P xs) = [v]"
  by (cases "filter P xs") auto

lemma transact_Inl: "transact g s = (Inl e, s') \<Longrightarrow> s' = s"
  by (auto simp: transact_def split: sum.splits prod.splits)

lemma AddFileChunk_Inl: "AddFileChunk s u f n h c = (Inl e, s') \<Longrightarrow> s' = s"
  by (auto simp: AddFileChunk_def Let_def split: if_splits dest: transact_Inl)

lemma RemoveFileChunk_Inl: "RemoveFileChunk s u f n = (Inl e, s') \<Longrightarrow> s' = s"
  unfolding RemoveFileChunk_def by (rule transact_Inl)

text \<open>What a successful \<open>AddFileChunk\<close> and a successful \<open>RemoveFileChunk\<close> did.\<close>

lemma AddFileChunk_Inr:
  assumes ok: "AddFileChunk s u f n h c = (Inr x, s')"
  shows "\<exists>q a rv. queryRow (getFileInfoOwner (db s) f) = Some u \<and>
      queryRow (getUserQuota (db s) u) = Some q \<and>
      \<not> wrap64 (q - a) < int (length c) \<and>
      getUserInfo (db s) u = [(Integer a, Integer rv)] \<and>
      s' = s\<lparr>db := snd (updateUserInfo (snd (addFileChunk (db s) f n h c)) (int (length c)) u)\<rparr>"
proof -
  have ui: "getUserInfo (snd (addFileChunk (db s) f n h c)) u = getUserInfo (db s) u"
    by (simp add: getUserInfo_def addFileChunk_def)
  have aff: "fst (addFileChunk (db s) f n h c) = 1"
    by (simp add: addFileChunk_def)
  from ok have *: "\<not> ChunkSize s < int (length c)"
    by (auto simp: AddFileChunk_def)
  from ok * obtain q where q: "queryRow (getFileInfoOwner (db s) f) = Some u"
      "queryRow (getUserQuota (db s) u) = Some q"
    by (auto simp: AddFileChunk_def transact_def Let_def split: option.splits if_splits)
  from ok * q obtain row where row: "queryRow (getUserInfo (db s) u) = Some row"
    by (auto simp: AddFileChunk_def transact_def Let_def split: option.splits if_splits)
  from ok * q row obtain a rv where a: "scanUserInfo row = Some (a, rv)"
      "\<not> wrap64 (q - a) < int (length c)"
    by (auto simp: AddFileChunk_def transact_def Let_def split: option.splits if_splits)
  from a(1) have row_eq: "row = (Integer a, Integer rv)"
    by (simp add: scanUserInfo_Some)
  from ok * q row a
  have b: "fst (updateUserInfo (snd (addFileChunk (db s) f n h c)) (int (length c)) u) = 1"
    by (auto simp: AddFileChunk_def transact_def Let_def split_def aff split: if_splits)
  with ok * q row a have r: "s' =
      s\<lparr>db := snd (updateUserInfo (snd (addFileChunk (db s) f n h c)) (int (length c)) u)\<rparr>"
    by (simp add: AddFileChunk_def transact_def Let_def split_def aff)
  from b have "length (filter (\<lambda>r. fst r = u) (UserInfo (snd (addFileChunk (db s) f n h c)))) = Suc 0"
    by (simp add: updateUserInfo_def)
  from single_row [OF this, of snd row] row ui
  have "getUserInfo (db s) u = [row]"
    by (simp add: getUserInfo_def)
  with q a r row_eq show ?thesis by blast
qed

lemma RemoveFileChunk_Inr:
  assumes ok: "RemoveFileChunk s u f n = (Inr x, s')"
  shows "\<exists>h c a rv. queryRow (getFileInfoOwner (db s) f) = Some u \<and>
      queryRow (getFileChunk (db s) f n) = Some (h, c) \<and>
      getUserInfo (db s) u = [(a, rv)] \<and>
      s' = s\<lparr>db := snd (updateUserInfo (snd (removeFileChunk (db s) f n)) (- int (length c)) u)\<rparr>"
proof -
  have ui: "getUserInfo (snd (removeFileChunk (db s) f n)) u = getUserInfo (db s) u"
    by (simp add: getUserInfo_def removeFileChunk_def)
  from ok obtain h c where q: "queryRow (getFileInfoOwner (db s) f) = Some u"
      "queryRow (getFileChunk (db s) f n) = Some (h, c)"
    by (auto simp: RemoveFileChunk_def transact_def split: option.splits if_splits)
  let ?tx1 = "snd (removeFileChunk (db s) f n)"
  from ok q have b: "\<not> fst (removeFileChunk (db s) f n) \<le> 0"
      "fst (updateUserInfo ?tx1 (- int (length c)) u) = 1"
    by (auto simp: RemoveFileChunk_def transact_def Let_def split_def split: if_splits)
  with ok q have r: "s' = s\<lparr>db := snd (updateUserInfo ?tx1 (- int (length c)) u)\<rparr>"
    by (simp add: RemoveFileChunk_def transact_def Let_def split_def)
  from b(2) have "length (filter (\<lambda>r. fst r = u) (UserInfo ?tx1)) = Suc 0"
    by (simp add: updateUserInfo_def)
  from single_row_ex [OF this, of snd] ui obtain v where "getUserInfo (db s) u = [v]"
    by (auto simp: getUserInfo_def)
  then obtain a rv where "getUserInfo (db s) u = [(a, rv)]"
    by (cases v) simp
  with q r show ?thesis by blast
qed









text \<open>Each chunk verb keeps the file ids of the chunk rows distinct.\<close>

lemma distinct_AddFileChunk:
  assumes "distinct (map FileID (FileChunks (db s)))"
  shows "distinct (map FileID (FileChunks (db (snd (AddFileChunk s u f n h c)))))"
proof (cases "AddFileChunk s u f n h c")
  case (Pair r s')
  show ?thesis
  proof (cases r)
    case (Inl e)
    with Pair AddFileChunk_Inl [of s u f n h c e s'] assms show ?thesis by simp
  next
    case (Inr x)
    with Pair AddFileChunk_Inr [of s u f n h c x s']
    have "FileChunks (db s') = filter (\<lambda>r. FileID r \<noteq> f) (FileChunks (db s)) @
        [\<lparr>FileID = f, ChunkNumber = n, ChunkHash = h, Chunk = c\<rparr>]"
      by (auto simp: updateUserInfo_def addFileChunk_def)
    with Pair assms show ?thesis
      by (auto simp: distinct_map_filter)
  qed
qed

lemma distinct_RemoveFileChunk:
  assumes "distinct (map FileID (FileChunks (db s)))"
  shows "distinct (map FileID (FileChunks (db (snd (RemoveFileChunk s u f n)))))"
proof (cases "RemoveFileChunk s u f n")
  case (Pair r s')
  show ?thesis
  proof (cases r)
    case (Inl e)
    with Pair RemoveFileChunk_Inl [of s u f n e s'] assms show ?thesis by simp
  next
    case (Inr x)
    with Pair RemoveFileChunk_Inr [of s u f n x s']
    have "FileChunks (db s') =
        filter (\<lambda>r. \<not> (FileID r = f \<and> ChunkNumber r = n)) (FileChunks (db s))"
      by (auto simp: updateUserInfo_def removeFileChunk_def)
    with Pair assms show ?thesis
      by (auto simp: distinct_map_filter)
  qed
qed

lemma distinct_apply_op:
  "distinct (map FileID (FileChunks (db s))) \<Longrightarrow>
   distinct (map FileID (FileChunks (db (apply_op s x))))"
  by (cases x) (simp_all add: distinct_AddFileChunk distinct_RemoveFileChunk)

lemma distinct_run_ops:
  "distinct (map FileID (FileChunks (db s))) \<Longrightarrow>
   distinct (map FileID (FileChunks (db (run_ops s ops))))"
  unfolding run_ops_def
  by (induction ops arbitrary: s) (simp_all add: distinct_apply_op)



lemma allocated_of_single:
  "getUserInfo (db s) u = [(al, rv)] \<Longrightarrow> allocated_of s u = scanInt al"
  by (simp add: allocated_of_def)






subsection \<open>The quota guard\<close>

text \<open>
  Claim C4. \<open>AddFileChunk\<close>, called by the owner of the file with a chunk within the
  chunk size, fails with \<open>QuotaExceeded\<close> whenever the quota less the allocation is
  smaller than the length of the new chunk. The quota and the allocation are the values
  the function reads inside its transaction, which is the one that would write the
  chunk. On this failure the storage is returned as it was: no chunk row is written,
  and allocation and revision keep their values. The difference is computed by the
  source in 64 bits; the hypothesis on its lower bound says that it does not wrap
  below.
\<close>

theorem AddFileChunk_quota_exceeded:
  assumes "int (length chunk) \<le> ChunkSize s"
    and "queryRow (getFileInfoOwner (db s) fileID) = Some userID"
    and "queryRow (getUserQuota (db s) userID) = Some quota"
    and "queryRow (getUserInfo (db s) userID) = Some (Integer allocated, Integer revision)"
    and "- (2 ^ 63) \<le> quota - allocated"
    and "quota - allocated < int (length chunk)"
  shows "AddFileChunk s userID fileID chunkNumber chunkHash chunk = (Inl QuotaExceeded, s)"
proof -
  have "wrap64 (quota - allocated) < int (length chunk)"
  proof (cases "quota - allocated < 2 ^ 63")
    case True
    with assms(5) have "wrap64 (quota - allocated) = quota - allocated"
      by (rule wrap64_id)
    with assms(6) show ?thesis by simp
  next
    case False
    with assms(6) have "2 ^ 63 < int (length chunk)" by linarith
    with wrap64_less [of "quota - allocated"] show ?thesis by linarith
  qed
  with assms(1-4) show ?thesis by (rule AddFileChunk_quota_guard)
qed

theorem AddFileChunk_quota_exceeded_witness:
  "AddFileChunk example_nearly_full 1 1 0 ''d'' [9, 9, 9] =
     (Inl QuotaExceeded, example_nearly_full)"
proof -
  have h1: "int (length [9, 9, 9 :: byte]) \<le> ChunkSize example_nearly_full"
    by (simp add: example_nearly_full_def)
  have h2: "queryRow (getFileInfoOwner (db example_nearly_full) 1) = Some 1"
    by (simp add: example_nearly_full_def getFileInfoOwner_def)
  have h3: "queryRow (getUserQuota (db example_nearly_full) 1) = Some 10"
    by (simp add: example_nearly_full_def getUserQuota_def)
  have h4: "queryRow (getUserInfo (db example_nearly_full) 1) = Some (Integer 8, Integer 3)"
    by (simp add: example_nearly_full_def getUserInfo_def)
  have h5: "- (2 ^ 63) \<le> (10::int) - 8" by simp
  have h6: "(10::int) - 8 < int (length [9, 9, 9 :: byte])" by simp
  show ?thesis by (rule AddFileChunk_quota_exceeded [OF h1 h2 h3 h4 h5 h6])
qed

subsection \<open>The size guard\<close>

text \<open>
  Claim C6. For every chunk longer than the configured chunk size, \<open>AddFileChunk\<close>
  fails with \<open>ChunkTooLarge\<close> and returns the storage as it was: no chunk row is
  written and no allocation or revision changes.
\<close>

theorem AddFileChunk_chunk_too_large:
  "ChunkSize s < int (length chunk) \<Longrightarrow>
   AddFileChunk s userID fileID chunkNumber chunkHash chunk = (Inl ChunkTooLarge, s)"
  by (simp add: AddFileChunk_def)

theorem AddFileChunk_chunk_too_large_witness:
  "AddFileChunk example_storage 1 1 0 ''c'' [1, 2, 3, 4, 5] =
     (Inl ChunkTooLarge, example_storage)"
proof -
  have h: "ChunkSize example_storage < int (length [1, 2, 3, 4, 5 :: byte])"
    by (simp add: example_storage_def)
  show ?thesis by (rule AddFileChunk_chunk_too_large [OF h])
qed

subsection \<open>Removing a chunk\<close>

text \<open>
  Claim C7. \<open>RemoveFileChunk\<close>, called by the owner of the file: when no chunk row
  with the file id and chunk number exists, it fails with \<open>NotFound\<close> and the storage
  is as before; when the row exists (and the user has the one UserInfo row that holds
  the allocation, with an allocation and a revision that are 64-bit integers and stay
  so when the length is subtracted and the revision counted up), it returns true, no
  row with that file id and chunk number remains while every other chunk row stays, and
  the user's allocation is lowered by exactly the length of the chunk that was stored
  (the revision grows by one).
\<close>

theorem RemoveFileChunk_by_owner:
  assumes own: "queryRow (getFileInfoOwner (db s) fileID) = Some userID"
  shows "(queryRow (getFileChunk (db s) fileID chunkNumber) = None \<longrightarrow>
            RemoveFileChunk s userID fileID chunkNumber = (Inl NotFound, s)) \<and>
         (\<forall>chunkHash chunk allocated revision.
            queryRow (getFileChunk (db s) fileID chunkNumber) = Some (chunkHash, chunk) \<and>
            getUserInfo (db s) userID = [(Integer allocated, Integer revision)] \<and>
            - (2 ^ 63) \<le> allocated - int (length chunk) \<and> allocated < 2 ^ 63 \<and>
            - (2 ^ 63) \<le> revision \<and> revision + 1 < 2 ^ 63 \<longrightarrow>
            (\<exists>s'. RemoveFileChunk s userID fileID chunkNumber = (Inr True, s') \<and>
                  getFileChunk (db s') fileID chunkNumber = [] \<and>
                  FileChunks (db s') =
                    filter (\<lambda>r. \<not> (FileID r = fileID \<and> ChunkNumber r = chunkNumber))
                           (FileChunks (db s)) \<and>
                  getUserInfo (db s') userID =
                    [(Integer (allocated - int (length chunk)), Integer (revision + 1))]))"
proof (intro conjI allI impI)
  assume "queryRow (getFileChunk (db s) fileID chunkNumber) = None"
  with own show "RemoveFileChunk s userID fileID chunkNumber = (Inl NotFound, s)"
    by (simp add: RemoveFileChunk_def transact_def)
next
  fix chunkHash chunk allocated revision
  assume a: "queryRow (getFileChunk (db s) fileID chunkNumber) = Some (chunkHash, chunk) \<and>
            getUserInfo (db s) userID = [(Integer allocated, Integer revision)] \<and>
            - (2 ^ 63) \<le> allocated - int (length chunk) \<and> allocated < 2 ^ 63 \<and>
            - (2 ^ 63) \<le> revision \<and> revision + 1 < 2 ^ 63"
  let ?tx1 = "snd (removeFileChunk (db s) fileID chunkNumber)"
  let ?tx2 = "snd (updateUserInfo ?tx1 (- int (length chunk)) userID)"
  have ui1: "UserInfo ?tx1 = UserInfo (db s)"
    by (simp add: removeFileChunk_def)
  have aff: "0 < fst (removeFileChunk (db s) fileID chunkNumber)"
    using a getFileChunk_Some_filter [of "db s" fileID chunkNumber chunkHash chunk]
    by (simp add: removeFileChunk_def)
  have g1: "getUserInfo ?tx1 userID = [(Integer allocated, Integer revision)]"
    using a ui1 by (simp add: getUserInfo_def)
  then have aff2: "fst (updateUserInfo ?tx1 (- int (length chunk)) userID) = 1"
    using length_map [of snd "filter (\<lambda>r. fst r = userID) (UserInfo ?tx1)"]
    by (simp add: updateUserInfo_def getUserInfo_def del: length_map)
  have res: "RemoveFileChunk s userID fileID chunkNumber = (Inr True, s\<lparr>db := ?tx2\<rparr>)"
    using own a aff aff2
    by (simp add: RemoveFileChunk_def transact_def split_def Let_def)
  have fc2: "FileChunks ?tx2 =
       filter (\<lambda>r. \<not> (FileID r = fileID \<and> ChunkNumber r = chunkNumber)) (FileChunks (db s))"
    by (simp add: updateUserInfo_def removeFileChunk_def)
  have gone: "getFileChunk ?tx2 fileID chunkNumber = []"
    by (simp add: getFileChunk_def fc2)
  have alloc: "sqlAdd (Integer allocated) (- int (length chunk)) =
      Integer (allocated - int (length chunk))"
    using a by simp
  have rev: "sqlAdd (Integer revision) 1 = Integer (revision + 1)"
    using a by simp
  have ui2: "getUserInfo ?tx2 userID =
      [(Integer (allocated - int (length chunk)), Integer (revision + 1))]"
    using g1 alloc rev by (simp add: getUserInfo_updateUserInfo_same del: sqlAdd.simps)
  show "\<exists>s'. RemoveFileChunk s userID fileID chunkNumber = (Inr True, s') \<and>
                  getFileChunk (db s') fileID chunkNumber = [] \<and>
                  FileChunks (db s') =
                    filter (\<lambda>r. \<not> (FileID r = fileID \<and> ChunkNumber r = chunkNumber))
                           (FileChunks (db s)) \<and>
                  getUserInfo (db s') userID =
                    [(Integer (allocated - int (length chunk)), Integer (revision + 1))]"
    using res fc2 gone ui2 by simp
qed

theorem RemoveFileChunk_by_owner_witness:
  "RemoveFileChunk example_nearly_full 1 1 0 = (Inl NotFound, example_nearly_full) \<and>
   (\<exists>s'. RemoveFileChunk example_nearly_full 1 1 1 = (Inr True, s') \<and>
         FileChunks (db s') = [] \<and> getUserInfo (db s') 1 = [(Integer 5, Integer 4)])"
proof -
  have own: "queryRow (getFileInfoOwner (db example_nearly_full) 1) = Some 1"
    by (simp add: example_nearly_full_def getFileInfoOwner_def)
  have absent: "queryRow (getFileChunk (db example_nearly_full) 1 0) = None"
    by (simp add: example_nearly_full_def getFileChunk_def)
  have present: "queryRow (getFileChunk (db example_nearly_full) 1 1) = Some (''c'', [7, 7, 7])"
    by (simp add: example_nearly_full_def getFileChunk_def)
  have info: "getUserInfo (db example_nearly_full) 1 = [(Integer 8, Integer 3)]"
    by (simp add: example_nearly_full_def getUserInfo_def)
  have range: "- (2 ^ 63) \<le> (8::int) - int (length [7, 7, 7 :: byte]) \<and> (8::int) < 2 ^ 63 \<and>
      - (2 ^ 63) \<le> (3::int) \<and> (3::int) + 1 < 2 ^ 63"
    by simp
  have rows: "filter (\<lambda>r. \<not> (FileID r = 1 \<and> ChunkNumber r = 1))
                (FileChunks (db example_nearly_full)) = []"
    by (simp add: example_nearly_full_def)
  from RemoveFileChunk_by_owner [OF own, of 0] absent
  have first: "RemoveFileChunk example_nearly_full 1 1 0 = (Inl NotFound, example_nearly_full)"
    by blast
  from RemoveFileChunk_by_owner [OF own, of 1] present info range
  have "\<exists>s'. RemoveFileChunk example_nearly_full 1 1 1 = (Inr True, s') \<and>
          getFileChunk (db s') 1 1 = [] \<and>
          FileChunks (db s') =
            filter (\<lambda>r. \<not> (FileID r = 1 \<and> ChunkNumber r = 1))
                   (FileChunks (db example_nearly_full)) \<and>
          getUserInfo (db s') 1 =
            [(Integer (8 - int (length [7, 7, 7 :: byte])), Integer (3 + 1))]"
    by blast
  with rows first show ?thesis by auto
qed

subsection \<open>Quota accounting over sequences of operations\<close>




subsection \<open>One chunk row per file\<close>

text \<open>
  Claim C9. The primary key of the table FileChunks is FileID alone. Hence the file
  ids of the chunk rows stay distinct through every sequence of chunk operations (at
  most one chunk row per file at any time); a successful \<open>AddFileChunk\<close> leaves
  exactly one row for the file, the new one, whatever chunk number the row it replaced
  had; and afterwards \<open>GetFileChunk\<close> returns the new chunk for its number and fails
  with \<open>NotFound\<close> for every other chunk number of the file.
\<close>

theorem FileChunks_one_row_per_file:
  "(distinct (map FileID (FileChunks (db s))) \<longrightarrow>
      distinct (map FileID (FileChunks (db (run_ops s ops))))) \<and>
   (AddFileChunk s userID fileID n chunkHash chunk = (Inr (), s') \<longrightarrow>
      filter (\<lambda>r. FileID r = fileID) (FileChunks (db s')) =
        [\<lparr>FileID = fileID, ChunkNumber = n, ChunkHash = chunkHash, Chunk = chunk\<rparr>] \<and>
      GetFileChunk s' fileID n =
        Inr \<lparr>FileID = fileID, ChunkNumber = n, ChunkHash = chunkHash, Chunk = chunk\<rparr> \<and>
      (\<forall>m. m \<noteq> n \<longrightarrow> GetFileChunk s' fileID m = Inl NotFound))"
proof (intro conjI impI)
  assume "distinct (map FileID (FileChunks (db s)))"
  then show "distinct (map FileID (FileChunks (db (run_ops s ops))))"
    by (rule distinct_run_ops)
next
  assume ok: "AddFileChunk s userID fileID n chunkHash chunk = (Inr (), s')"
  let ?new = "\<lparr>FileID = fileID, ChunkNumber = n, ChunkHash = chunkHash, Chunk = chunk\<rparr>"
  from AddFileChunk_Inr [OF ok]
  have rows: "FileChunks (db s') = filter (\<lambda>r. FileID r \<noteq> fileID) (FileChunks (db s)) @ [?new]"
    by (auto simp: updateUserInfo_def addFileChunk_def)
  then show one: "filter (\<lambda>r. FileID r = fileID) (FileChunks (db s')) = [?new]"
    by simp
  have split: "filter (\<lambda>r. FileID r = fileID \<and> ChunkNumber r = m) (FileChunks (db s')) =
      filter (\<lambda>r. ChunkNumber r = m) (filter (\<lambda>r. FileID r = fileID) (FileChunks (db s')))" for m
    by (simp add: conj_commute)
  show "GetFileChunk s' fileID n = Inr ?new"
    by (simp add: GetFileChunk_def getFileChunk_def split one)
  show "\<forall>m. m \<noteq> n \<longrightarrow> GetFileChunk s' fileID m = Inl NotFound"
    by (simp add: GetFileChunk_def getFileChunk_def split one)
qed

theorem FileChunks_one_row_per_file_witness:
  "distinct (map FileID (FileChunks (db example_nearly_full))) \<and>
   distinct (map FileID (FileChunks (db (run_ops example_nearly_full
      [Add 1 1 0 ''d'' [9], Remove 1 1 1])))) \<and>
   fst (AddFileChunk example_nearly_full 1 1 0 ''d'' [9]) = Inr () \<and>
   filter (\<lambda>r. FileID r = 1)
      (FileChunks (db (snd (AddFileChunk example_nearly_full 1 1 0 ''d'' [9])))) =
     [\<lparr>FileID = 1, ChunkNumber = 0, ChunkHash = ''d'', Chunk = [9]\<rparr>] \<and>
   GetFileChunk (snd (AddFileChunk example_nearly_full 1 1 0 ''d'' [9])) 1 1 = Inl NotFound"
proof -
  have d: "distinct (map FileID (FileChunks (db example_nearly_full)))"
    by (simp add: example_nearly_full_def)
  have ok: "fst (AddFileChunk example_nearly_full 1 1 0 ''d'' [9]) = Inr ()"
    by code_simp
  then have put: "AddFileChunk example_nearly_full 1 1 0 ''d'' [9] =
      (Inr (), snd (AddFileChunk example_nearly_full 1 1 0 ''d'' [9]))"
    by (metis prod.collapse)
  from FileChunks_one_row_per_file
    [of example_nearly_full "[Add 1 1 0 ''d'' [9], Remove 1 1 1]" 1 1 0 "''d''" "[9]"
        "snd (AddFileChunk example_nearly_full 1 1 0 ''d'' [9])"]
    d put ok
  show ?thesis by simp
qed

subsection \<open>The ownership guard\<close>

text \<open>
  Claim C5, as stated, fails on two of the verbs that take a file id. \<open>AddFileChunk\<close>
  tests the length of the chunk before it looks at the owner, so a caller who does not
  own the file and sends a chunk longer than the chunk size gets \<open>ChunkTooLarge\<close>,
  not \<open>NotOwner\<close>: here user 2 on file 1, which user 1 owns. \<open>GetFileChunk\<close> takes
  no user id at all and returns the chunk of file 1 to whoever asks.
\<close>

theorem ownership_guard_counterexample:
  "queryRow (getFileInfoOwner (db example_nearly_full) 1) = Some 1 \<and>
   AddFileChunk example_nearly_full 2 1 0 ''c'' [1, 2, 3, 4, 5] =
     (Inl ChunkTooLarge, example_nearly_full) \<and>
   GetFileChunk example_nearly_full 1 1 =
     Inr \<lparr>FileID = 1, ChunkNumber = 1, ChunkHash = ''c'', Chunk = [7, 7, 7]\<rparr>"
  by (simp add: example_nearly_full_def getFileInfoOwner_def AddFileChunk_def
        GetFileChunk_def getFileChunk_def)

text \<open>
  Claim C5, amended. For every file id that has an owner and every user id different
  from the owner, \<open>GetFileInfo\<close>, \<open>GetMissingChunkNumbersForFile\<close> and
  \<open>RemoveFileChunk\<close> fail with \<open>NotOwner\<close>, and so does \<open>AddFileChunk\<close> when the
  chunk is not longer than the chunk size; each returns the storage as it was.
  \<open>GetFileChunk\<close> has no user id and is not guarded.
\<close>

theorem ownership_guard:
  assumes "queryRow (getFileInfoOwner (db s) fileID) = Some owner"
    and "userID \<noteq> owner"
  shows "GetFileInfo s userID fileID = (Inl NotOwner, s) \<and>
         GetMissingChunkNumbersForFile s userID fileID = (Inl NotOwner, s) \<and>
         RemoveFileChunk s userID fileID chunkNumber = (Inl NotOwner, s) \<and>
         (int (length chunk) \<le> ChunkSize s \<longrightarrow>
            AddFileChunk s userID fileID chunkNumber chunkHash chunk = (Inl NotOwner, s))"
  using assms
  by (simp add: GetFileInfo_def GetMissingChunkNumbersForFile_def RemoveFileChunk_def
        AddFileChunk_def transact_def)

theorem ownership_guard_witness:
  "GetFileInfo example_nearly_full 2 1 = (Inl NotOwner, example_nearly_full) \<and>
   GetMissingChunkNumbersForFile example_nearly_full 2 1 =
     (Inl NotOwner, example_nearly_full) \<and>
   RemoveFileChunk example_nearly_full 2 1 1 = (Inl NotOwner, example_nearly_full) \<and>
   AddFileChunk example_nearly_full 2 1 0 ''x'' [1] = (Inl NotOwner, example_nearly_full)"
proof -
  have own: "queryRow (getFileInfoOwner (db example_nearly_full) 1) = Some 1"
    by (simp add: example_nearly_full_def getFileInfoOwner_def)
  have other: "(2::int) \<noteq> 1" by simp
  have small: "int (length [1 :: byte]) \<le> ChunkSize example_nearly_full"
    by (simp add: example_nearly_full_def)
  from ownership_guard [OF own other, where chunkNumber = 1]
    ownership_guard [OF own other, where chunkNumber = 0 and chunk = "[1]" and chunkHash = "''x''"]
    small
  show ?thesis by blast
qed

subsection \<open>Missing chunk numbers\<close>

text \<open>
  The binary search returns the boundary of a predicate that is monotone on the range;
  on a sorted list, \<open>SearchInts\<close> returns the length of the list exactly when every
  element is smaller than the number searched for. So what the owner of a file gets from
  \<open>GetMissingChunkNumbersForFile\<close> are the numbers below the chunk count that are
  greater than every stored chunk number of the file.
\<close>

lemma Search_loop_spec:
  assumes "i \<le> j"
    and "\<And>a b. i \<le> a \<Longrightarrow> a \<le> b \<Longrightarrow> b < j \<Longrightarrow> f a \<Longrightarrow> f b"
  shows "i \<le> Search_loop f i j \<and> Search_loop f i j \<le> j \<and>
         (\<forall>k. i \<le> k \<and> k < Search_loop f i j \<longrightarrow> \<not> f k) \<and>
         (\<forall>k. Search_loop f i j \<le> k \<and> k < j \<longrightarrow> f k)"
  using assms
proof (induction f i j rule: Search_loop.induct)
  case (1 f i j)
  show ?case
  proof (cases "i < j")
    case False
    then have "Search_loop f i j = i"
      by (subst Search_loop.simps) simp
    with False "1.prems"(1) show ?thesis by auto
  next
    case True
    let ?h = "(i + j) div 2"
    from True have h: "i \<le> ?h" "?h < j" by simp_all
    show ?thesis
    proof (cases "f ?h")
      case False
      have eq: "Search_loop f i j = Search_loop f (?h + 1) j"
        using True False by (subst Search_loop.simps) (simp add: Let_def)
      have mono: "\<And>a b. ?h + 1 \<le> a \<Longrightarrow> a \<le> b \<Longrightarrow> b < j \<Longrightarrow> f a \<Longrightarrow> f b"
      proof -
        fix a b
        assume ab: "?h + 1 \<le> a" "a \<le> b" "b < j" "f a"
        from ab(1) h(1) have "i \<le> a" by linarith
        from "1.prems"(2) [OF this ab(2) ab(3) ab(4)] show "f b" .
      qed
      from h have le: "?h + 1 \<le> j" by simp
      have low: "\<not> f k" if "i \<le> k" "k \<le> ?h" for k
      proof
        assume "f k"
        from "1.prems"(2) [OF that(1) that(2) h(2) this] False show False by simp
      qed
      let ?r = "Search_loop f (?h + 1) j"
      have IH: "?h + 1 \<le> ?r \<and> ?r \<le> j \<and>
          (\<forall>k. ?h + 1 \<le> k \<and> k < ?r \<longrightarrow> \<not> f k) \<and> (\<forall>k. ?r \<le> k \<and> k < j \<longrightarrow> f k)"
        by (rule "1.IH"(1) [OF True refl False le]) (rule mono)
      from IH have r: "?h + 1 \<le> ?r" "?r \<le> j"
          "\<And>k. ?h + 1 \<le> k \<Longrightarrow> k < ?r \<Longrightarrow> \<not> f k"
          "\<And>k. ?r \<le> k \<Longrightarrow> k < j \<Longrightarrow> f k"
        by blast+
      have "\<not> f k" if "i \<le> k" "k < ?r" for k
      proof (cases "k \<le> ?h")
        case True
        with that low show ?thesis by blast
      next
        case False
        then have "?h + 1 \<le> k" by simp
        with that r(3) show ?thesis by blast
      qed
      with r h show ?thesis unfolding eq by auto
    next
      case fh: True
      have eq: "Search_loop f i j = Search_loop f i ?h"
        using True fh by (subst Search_loop.simps) (simp add: Let_def)
      have mono: "\<And>a b. i \<le> a \<Longrightarrow> a \<le> b \<Longrightarrow> b < ?h \<Longrightarrow> f a \<Longrightarrow> f b"
      proof -
        fix a b
        assume ab: "i \<le> a" "a \<le> b" "b < ?h" "f a"
        from ab(3) h(2) have "b < j" by linarith
        from "1.prems"(2) [OF ab(1) ab(2) this ab(4)] show "f b" .
      qed
      have nn: "\<not> \<not> f ?h" using fh by simp
      have high: "f k" if "?h \<le> k" "k < j" for k
        by (rule "1.prems"(2) [OF h(1) that(1) that(2) fh])
      let ?r = "Search_loop f i ?h"
      have IH: "i \<le> ?r \<and> ?r \<le> ?h \<and>
          (\<forall>k. i \<le> k \<and> k < ?r \<longrightarrow> \<not> f k) \<and> (\<forall>k. ?r \<le> k \<and> k < ?h \<longrightarrow> f k)"
        by (rule "1.IH"(2) [OF True refl nn h(1)]) (rule mono)
      from IH have r: "i \<le> ?r" "?r \<le> ?h"
          "\<And>k. i \<le> k \<Longrightarrow> k < ?r \<Longrightarrow> \<not> f k"
          "\<And>k. ?r \<le> k \<Longrightarrow> k < ?h \<Longrightarrow> f k"
        by blast+
      have "f k" if "?r \<le> k" "k < j" for k
      proof (cases "k < ?h")
        case True
        with that r(4) show ?thesis by blast
      next
        case False
        then have "?h \<le> k" by simp
        with that high show ?thesis by blast
      qed
      with r h show ?thesis unfolding eq by auto
    qed
  qed
qed

lemma SearchInts_past_end:
  assumes "sorted a"
  shows "SearchInts a x \<ge> length a \<longleftrightarrow> (\<forall>y \<in> set a. y < x)"
proof -
  let ?f = "\<lambda>i. a ! i \<ge> x"
  let ?r = "Search_loop ?f 0 (length a)"
  have mono: "\<And>p q. 0 \<le> p \<Longrightarrow> p \<le> q \<Longrightarrow> q < length a \<Longrightarrow> x \<le> a ! p \<Longrightarrow> x \<le> a ! q"
  proof -
    fix p q
    assume pq: "0 \<le> p" "p \<le> q" "q < length a" "x \<le> a ! p"
    from assms pq(2,3) have "a ! p \<le> a ! q" by (rule sorted_nth_mono)
    with pq(4) show "x \<le> a ! q" by (rule order_trans)
  qed
  have spec0: "0 \<le> ?r \<and> ?r \<le> length a \<and>
      (\<forall>k. 0 \<le> k \<and> k < ?r \<longrightarrow> \<not> ?f k) \<and> (\<forall>k. ?r \<le> k \<and> k < length a \<longrightarrow> ?f k)"
    by (rule Search_loop_spec [of 0 "length a" ?f]) (simp, rule mono)
  from spec0 have upper: "?r \<le> length a" by blast
  have below: "a ! k < x" if "k < ?r" for k
  proof -
    from spec0 that have "\<not> x \<le> a ! k" by blast
    then show ?thesis by (simp only: not_le)
  qed
  have above: "x \<le> a ! k" if "?r \<le> k" "k < length a" for k
    using spec0 that by blast
  show ?thesis
  proof
    assume "length a \<le> SearchInts a x"
    with upper have "?r = length a"
      by (simp add: SearchInts_def)
    with below have "\<forall>k < length a. a ! k < x" by metis
    then show "\<forall>y \<in> set a. y < x" by (auto simp: in_set_conv_nth)
  next
    assume all: "\<forall>y \<in> set a. y < x"
    show "length a \<le> SearchInts a x"
    proof (rule ccontr)
      assume "\<not> length a \<le> SearchInts a x"
      then have lt: "?r < length a"
        by (simp add: SearchInts_def)
      from above [OF order_refl lt] have "x \<le> a ! ?r" .
      moreover from lt have "a ! ?r \<in> set a" by (rule nth_mem)
      with all have "a ! ?r < x" by blast
      ultimately show False by simp
    qed
  qed
qed

lemma GetMissingChunkNumbersForFile_computes:
  assumes "queryRow (getFileInfoOwner (db s) fileID) = Some userID"
    and "queryRow (getFileInfo (db s) fileID) = Some fi"
  shows "GetMissingChunkNumbersForFile s userID fileID =
           (Inr (filter (\<lambda>i. \<forall>n \<in> set (map fst (getAllFileChunksByID (db s) fileID)). n < i)
                        [0 .. ChunkCount fi - 1]), s)"
proof -
  let ?known = "sort (map fst (getAllFileChunksByID (db s) fileID))"
  have "(length ?known \<le> SearchInts ?known i) =
        (\<forall>n \<in> set (map fst (getAllFileChunksByID (db s) fileID)). n < i)" for i
    using SearchInts_past_end [of ?known i] by simp
  then have "filter (\<lambda>i. length ?known \<le> SearchInts ?known i) [0 .. ChunkCount fi - 1] =
      filter (\<lambda>i. \<forall>n \<in> set (map fst (getAllFileChunksByID (db s) fileID)). n < i)
             [0 .. ChunkCount fi - 1]"
    by simp
  with assms show ?thesis
    by (simp add: GetMissingChunkNumbersForFile_def transact_def Let_def del: length_sort set_map)
qed

text \<open>
  Claim C2 does not hold of the code. \<open>GetMissingChunkNumbersForFile\<close> reports a chunk
  number as missing when \<open>sort.SearchInts\<close> returns the length of the sorted list of
  stored numbers, that is, when the number is greater than every stored one; a number
  that is absent but smaller than a stored one is not reported. In the example, file 1
  has two chunks and its owner has put chunk 1 only; chunk 0 is not stored, and the
  function returns the empty list where chunk 0 is missing.
\<close>

theorem GetMissingChunkNumbersForFile_skips_absent_chunk:
  "map ChunkCount (getFileInfo (db example_storage) 1) = [2] \<and>
   fst (AddFileChunk example_storage 1 1 1 ''c'' [7, 7, 7]) = Inr () \<and>
   getFileChunk (db (run_ops example_storage [Add 1 1 1 ''c'' [7, 7, 7]])) 1 0 = [] \<and>
   fst (GetMissingChunkNumbersForFile
          (run_ops example_storage [Add 1 1 1 ''c'' [7, 7, 7]]) 1 1) = Inr [] \<and>
   GetMissingChunkNumbersForFile example_nearly_full 1 1 = (Inr [], example_nearly_full)"
  by code_simp

section \<open>Properties of the sync client\<close>

subsection \<open>Auxiliary facts\<close>

lemma forEachChunk_from_upload_all:
  assumes "\<forall>i \<in> set idx. putChunk w remoteID (int i)
              (chunkHashOf w (chunkAt chunkSize content i)) (chunkAt chunkSize content i) = Reply True"
  shows "forEachChunk_from chunkSize content (uploadChunk w remoteID) idx (n, fx) =
         (None, (n + int (length idx),
                 fx\<lparr>sent := sent fx @
                    map (\<lambda>i. PutChunk remoteID (int i)
                              (chunkHashOf w (chunkAt chunkSize content i))
                              (chunkAt chunkSize content i)) idx\<rparr>))"
  using assms
proof (induction idx arbitrary: n fx)
  case Nil
  show ?case by simp
next
  case (Cons i rest)
  then show ?case by (simp add: uploadChunk_def Let_def)
qed

lemma IndexByte_takeWhile:
  "IndexByte xs c = (if c \<in> set xs then int (length (takeWhile (\<lambda>x. x \<noteq> c) xs)) else - 1)"
  by (induction xs) (auto simp: Let_def)

text \<open>What the trimming step computes: the bytes before the first zero byte when the
  chunk has a zero byte and does not start with one, the whole chunk otherwise.\<close>

lemma trimEOF_eq:
  "trimEOF chunk =
     (if 0 \<in> set chunk \<and> hd chunk \<noteq> 0 then takeWhile (\<lambda>x. x \<noteq> 0) chunk else chunk)"
proof (cases chunk)
  case Nil
  then show ?thesis by (simp add: trimEOF_def)
next
  case (Cons a rest)
  have "take (length (takeWhile (\<lambda>x. x \<noteq> 0) chunk)) chunk = takeWhile (\<lambda>x. x \<noteq> 0) chunk"
    by (induction chunk) auto
  with Cons show ?thesis
    by (auto simp: trimEOF_def IndexByte_takeWhile Let_def nat_add_distrib)
qed

subsection \<open>Uploading the missing chunks\<close>

text \<open>
  Claim C3, as stated, fails: \<open>syncUploadMissing\<close> is not given the list of missing
  chunks and uploads every chunk of the local file. In the example the server reports
  chunk 1 as the only missing chunk of a file of three chunks; the client, with equal
  modification times, uploads the chunks 0, 1 and 2 and returns the status Missing with
  the count 3.
\<close>

theorem syncUploadMissing_uploads_all_counterexample:
  "getFileByName example_world ''f'' =
     Reply \<lparr>UserID = 1, FileID = 7, FileName = ''f'', LastMod = 100, ChunkCount = 3,
            FileHash = ''H'', MissingChunks = [1]\<rparr> \<and>
   runSyncFile example_world ''f'' =
     ((syncStatusMissing, 3, None),
      \<lparr>sent = [GetFileByName ''f'', PutChunk 7 0 ''##'' [65, 66],
               PutChunk 7 1 ''##'' [67, 68], PutChunk 7 2 ''#'' [69]],
       written = []\<rparr>)"
  by code_simp

text \<open>
  Claim C3, amended. When the remote file is registered, the local file exists, the
  local and remote modification times are equal and the remote list of missing chunks
  is not empty, \<open>runSyncFile\<close> invokes \<open>syncUploadMissing\<close> and returns the status
  Missing with the number of chunks that it uploaded; and when the server accepts each
  upload, \<open>syncUploadMissing\<close> uploads every chunk \<open>0 \<le> i < localChunkCount\<close> of the
  local file, in order, whether listed as missing or not, and the number returned is
  \<open>localChunkCount\<close>.
\<close>

theorem runSyncFile_upload_missing:
  assumes remote: "getFileByName w remoteFilepath = Reply remote"
    and local: "localFile w = Some content"
    and info: "CalcFileHashInfo w = Some (localChunkCount, localLastMod, localHash)"
    and same_time: "localLastMod = LastMod remote"
    and missing: "MissingChunks remote \<noteq> []"
  shows "runSyncFile w remoteFilepath =
           (case syncUploadMissing w (FileInfo.FileID remote) localChunkCount
                   \<lparr>sent = [GetFileByName remoteFilepath], written = []\<rparr> of
              ((ulCount, e), fx) \<Rightarrow> ((syncStatusMissing, ulCount, e), fx)) \<and>
         ((\<forall>i < nat localChunkCount.
              putChunk w (FileInfo.FileID remote) (int i)
                (chunkHashOf w (chunkAt (flagChunkSize w) content i))
                (chunkAt (flagChunkSize w) content i) = Reply True) \<longrightarrow>
          runSyncFile w remoteFilepath =
            ((syncStatusMissing, int (nat localChunkCount), None),
             \<lparr>sent = GetFileByName remoteFilepath #
                 map (\<lambda>i. PutChunk (FileInfo.FileID remote) (int i)
                            (chunkHashOf w (chunkAt (flagChunkSize w) content i))
                            (chunkAt (flagChunkSize w) content i))
                     [0 ..< nat localChunkCount],
              written = []\<rparr>))"
proof -
  let ?fx0 = "\<lparr>sent = [GetFileByName remoteFilepath], written = []\<rparr>"
  have run: "runSyncFile w remoteFilepath =
      (case syncUploadMissing w (FileInfo.FileID remote) localChunkCount ?fx0 of
         ((ulCount, e), fx) \<Rightarrow> ((syncStatusMissing, ulCount, e), fx))"
    using assms by (simp add: runSyncFile_def resolveDifference_def)
  have "runSyncFile w remoteFilepath =
        ((syncStatusMissing, int (nat localChunkCount), None),
         \<lparr>sent = GetFileByName remoteFilepath #
             map (\<lambda>i. PutChunk (FileInfo.FileID remote) (int i)
                        (chunkHashOf w (chunkAt (flagChunkSize w) content i))
                        (chunkAt (flagChunkSize w) content i))
                 [0 ..< nat localChunkCount],
          written = []\<rparr>)"
    if ok: "\<forall>i < nat localChunkCount.
              putChunk w (FileInfo.FileID remote) (int i)
                (chunkHashOf w (chunkAt (flagChunkSize w) content i))
                (chunkAt (flagChunkSize w) content i) = Reply True"
  proof -
    from ok have "\<forall>i \<in> set [0 ..< nat localChunkCount].
              putChunk w (FileInfo.FileID remote) (int i)
                (chunkHashOf w (chunkAt (flagChunkSize w) content i))
                (chunkAt (flagChunkSize w) content i) = Reply True"
      by simp
    from forEachChunk_from_upload_all [OF this, of 0 ?fx0] local
    have "syncUploadMissing w (FileInfo.FileID remote) localChunkCount ?fx0 =
        ((int (nat localChunkCount), None),
         \<lparr>sent = GetFileByName remoteFilepath #
             map (\<lambda>i. PutChunk (FileInfo.FileID remote) (int i)
                        (chunkHashOf w (chunkAt (flagChunkSize w) content i))
                        (chunkAt (flagChunkSize w) content i))
                 [0 ..< nat localChunkCount],
          written = []\<rparr>)"
      by (simp add: syncUploadMissing_def forEachChunk_def)
    with run show ?thesis by simp
  qed
  with run show ?thesis by blast
qed

theorem runSyncFile_upload_missing_witness:
  "getFileByName example_world ''f'' =
     Reply \<lparr>UserID = 1, FileID = 7, FileName = ''f'', LastMod = 100, ChunkCount = 3,
            FileHash = ''H'', MissingChunks = [1]\<rparr> \<and>
   localFile example_world = Some [65, 66, 67, 68, 69] \<and>
   CalcFileHashInfo example_world = Some (3, 100, ''H'') \<and>
   runSyncFile example_world ''f'' =
     ((syncStatusMissing, int (nat 3), None),
      \<lparr>sent = GetFileByName ''f'' #
          map (\<lambda>i. PutChunk 7 (int i)
                     (chunkHashOf example_world
                        (chunkAt (flagChunkSize example_world) [65, 66, 67, 68, 69] i))
                     (chunkAt (flagChunkSize example_world) [65, 66, 67, 68, 69] i))
              [0 ..< nat 3],
       written = []\<rparr>)"
proof -
  let ?remote = "\<lparr>UserID = 1, FileID = 7, FileName = ''f'', LastMod = 100, ChunkCount = 3,
                  FileHash = ''H'', MissingChunks = [1]\<rparr>"
  have h1: "getFileByName example_world ''f'' = Reply ?remote"
    by (simp add: example_world_def)
  have h2: "localFile example_world = Some [65, 66, 67, 68, 69]"
    by (simp add: example_world_def)
  have h3: "CalcFileHashInfo example_world = Some (3, 100, ''H'')"
    by (simp add: example_world_def)
  have h4: "(100::int) = LastMod ?remote" by simp
  have h5: "MissingChunks ?remote \<noteq> []" by simp
  have h6: "\<forall>i < nat 3.
      putChunk example_world (FileInfo.FileID ?remote) (int i)
        (chunkHashOf example_world
           (chunkAt (flagChunkSize example_world) [65, 66, 67, 68, 69] i))
        (chunkAt (flagChunkSize example_world) [65, 66, 67, 68, 69] i) = Reply True"
    by (simp add: example_world_def)
  from runSyncFile_upload_missing [OF h1 h2 h3 h4 h5] h6
  have "runSyncFile example_world ''f'' =
     ((syncStatusMissing, int (nat 3), None),
      \<lparr>sent = GetFileByName ''f'' #
          map (\<lambda>i. PutChunk (FileInfo.FileID ?remote) (int i)
                     (chunkHashOf example_world
                        (chunkAt (flagChunkSize example_world) [65, 66, 67, 68, 69] i))
                     (chunkAt (flagChunkSize example_world) [65, 66, 67, 68, 69] i))
              [0 ..< nat 3],
       written = []\<rparr>)"
    by blast
  with h1 h2 h3 show ?thesis by simp
qed

subsection \<open>The extra-strict comparison\<close>

text \<open>
  Claim C10. In extra-strict mode, when the local file exists, the whole-file hashes
  match, the remote list of missing chunks is empty and the local and remote chunk
  counts are equal, but the chunk list that the server returns for the file has a
  number of entries different from the local chunk count, \<open>runSyncFile\<close> returns the
  status Same with the count 0 and no error, having sent the lookup by name and the
  request for the chunk list and nothing else. The result does not depend on the
  content of the local file, on the chunk digest or on the hashes in the list: no chunk
  is compared.
\<close>

theorem runSyncFile_strict_count_mismatch:
  assumes remote: "getFileByName w remoteFilepath = Reply remote"
    and local: "localFile w = Some content"
    and info: "CalcFileHashInfo w = Some (localChunkCount, localLastMod, localHash)"
    and same_hash: "localHash = FileHash remote"
    and none_missing: "MissingChunks remote = []"
    and same_count: "localChunkCount = ChunkCount remote"
    and strict: "flagExtraStrict w"
    and list: "getChunkList w (FileInfo.FileID remote) = Reply remoteChunks"
    and other_count: "int (length remoteChunks) \<noteq> localChunkCount"
  shows "runSyncFile w remoteFilepath =
           ((syncStatusSame, 0, None),
            \<lparr>sent = [GetFileByName remoteFilepath, GetChunkList (FileInfo.FileID remote)],
             written = []\<rparr>)"
  using assms by (auto simp: runSyncFile_def Let_def)

theorem runSyncFile_strict_count_mismatch_witness:
  "runSyncFile example_world_complete ''f'' =
     ((syncStatusSame, 0, None), \<lparr>sent = [GetFileByName ''f'', GetChunkList 7], written = []\<rparr>)"
proof -
  let ?remote = "\<lparr>UserID = 1, FileID = 7, FileName = ''f'', LastMod = 100, ChunkCount = 3,
                  FileHash = ''H'', MissingChunks = []\<rparr>"
  have h1: "getFileByName example_world_complete ''f'' = Reply ?remote"
    by (simp add: example_world_complete_def)
  have h2: "localFile example_world_complete = Some [65, 66, 67, 68, 69]"
    by (simp add: example_world_complete_def example_world_def)
  have h3: "CalcFileHashInfo example_world_complete = Some (3, 100, ''H'')"
    by (simp add: example_world_complete_def example_world_def)
  have h4: "''H'' = FileHash ?remote" by simp
  have h5: "MissingChunks ?remote = []" by simp
  have h6: "(3::int) = ChunkCount ?remote" by simp
  have h7: "flagExtraStrict example_world_complete"
    by (simp add: example_world_complete_def example_world_def)
  have h8: "getChunkList example_world_complete (FileInfo.FileID ?remote) = Reply []"
    by (simp add: example_world_complete_def example_world_def)
  have h9: "int (length ([] :: FileChunk list)) \<noteq> 3" by simp
  from runSyncFile_strict_count_mismatch [OF h1 h2 h3 h4 h5 h6 h7 h8 h9]
  show ?thesis by simp
qed

subsection \<open>Trimming downloaded chunks\<close>

text \<open>
  Claim C8 does not hold of the code. \<open>syncDownload\<close> cuts a received chunk at the
  first zero byte only when the index of that byte is greater than 0; a chunk whose
  first byte is zero is written in full, zero byte included. In the example the server
  sends the chunk 0, 65, 66 and all three bytes are written, where a cut at the first
  zero byte leaves nothing to write.
\<close>

theorem syncDownload_keeps_leading_zero_chunk:
  "IndexByte [0, 65, 66] 0 = 0 \<and>
   trimEOF [0, 65, 66] = [0, 65, 66] \<and>
   syncDownload example_world 7 1 \<lparr>sent = [], written = []\<rparr> =
     ((1, None), \<lparr>sent = [GetChunk 7 0], written = [[0, 65, 66]]\<rparr>)"
  by code_simp

end
